theory Spec2Isabelle
  imports Main
begin

section \<open>Errors\<close>

text \<open>
  Every exception the modelled code can raise is a value.  \<open>RuntimeError\<close> and
  \<open>OverflowError\<close> are raised inside the tensor library, \<open>EinopsError\<close> stands for a failed
  \<open>rearrange\<close>, \<open>ForwardError\<close> for an exception raised by a wrapped forward computation.
\<close>

datatype error =
    AssertionError
  | IndexError
  | ValueError
  | RuntimeError
  | OverflowError
  | ZeroDivisionError
  | EinopsError
  | ForwardError

section \<open>Tile size selector\<close>

text \<open>
  \<^verbatim>\<open>
  def possible_tile_sizes(dimension, tile_size, min_tile_size, tile_options):
      assert tile_options >= 1
      min_tile_size = min(min_tile_size, tile_size, dimension)
      n = torch.arange(1, dimension + 1)
      n = n[dimension // n // 8 * 8 * n == dimension]
      n = n[dimension // n >= min_tile_size]
      pos = (dimension // n).sub(tile_size).abs().argsort()
      pos = pos[:tile_options]
      return n[pos].tolist()
  \<close>
  The arguments are Python integers (\<open>int\<close>).  A one-dimensional tensor of dtype int64 is
  the list of its elements; arithmetic on its elements wraps at 64 bits, which \<open>wrap64\<close>
  writes out.  A Python integer that meets a tensor in an operation is converted to a
  scalar of the library first, and the conversion raises \<open>OverflowError\<close> when the integer
  is out of range.
\<close>

definition wrap64 :: "int \<Rightarrow> int" where
  "wrap64 x = (x + 2 ^ 63) mod 2 ^ 64 - 2 ^ 63"

text \<open>
  \<open>torch.arange(start, end)\<close> has the elements \<open>start, ..., end - 1\<close>.  It raises
  \<open>RuntimeError\<close> when the bounds are in the wrong order, and from \<open>2 ^ 60\<close> elements on,
  where the size of the storage in bytes no longer fits 64 bits.  A machine that lacks the
  memory for the tensor raises for a smaller one already; that limit is not a property of
  the code and is left out, so the definition returns wherever the code returns, with the
  same elements, and may return where a machine gives up.
\<close>

definition arange :: "int \<Rightarrow> int \<Rightarrow> error + int list" where
  "arange start end' =
     (if end' < start \<or> 2 ^ 60 \<le> end' - start then Inl RuntimeError
      else Inr [start..end' - 1])"

text \<open>
  The sort key of a candidate: \<open>(dimension // n).sub(tile_size).abs()\<close>, element-wise in
  int64.  The quotients and products of the two masks stay between 0 and \<open>dimension\<close>, so
  they cannot wrap.
\<close>

definition tile_distance :: "int \<Rightarrow> int \<Rightarrow> int \<Rightarrow> int" where
  "tile_distance dimension tile_size n =
     wrap64 (\<bar>wrap64 (dimension div n - tile_size)\<bar>)"

text \<open>
  \<open>argsort\<close> returns the indices that sort the keys in ascending order.  The CPU sorting
  kernel of the library is a stable sort, whether or not \<open>stable=True\<close> is passed, and
  \<open>torch.arange\<close> makes a CPU tensor; the model is the stable insertion sort of the indices.
\<close>

definition argsort :: "int list \<Rightarrow> nat list" where
  "argsort ks = sort_key (\<lambda>i. ks ! i) [0..<length ks]"

text \<open>
  The function, line by line.  The comparison of line 31 converts the clamped
  \<open>min_tile_size\<close> and raises when it is below \<open>- 2 ^ 63\<close> (it is at most \<open>dimension\<close>); the
  subtraction of line 32 converts \<open>tile_size\<close> and raises when it is outside
  \<open>[- 2 ^ 63, 2 ^ 64)\<close>.  Both happen for an empty tensor too.
\<close>

definition possible_tile_sizes :: "int \<Rightarrow> int \<Rightarrow> int \<Rightarrow> int \<Rightarrow> error + int list" where
  "possible_tile_sizes dimension tile_size min_tile_size tile_options =
     (if tile_options \<ge> 1 then
        let min_tile_size = min min_tile_size (min tile_size dimension) in
        case arange 1 (dimension + 1) of
          Inl e \<Rightarrow> Inl e
        | Inr n \<Rightarrow>
            let n = filter (\<lambda>n. dimension div n div 8 * 8 * n = dimension) n in
            if - (2 ^ 63) \<le> min_tile_size then
              let n = filter (\<lambda>n. dimension div n \<ge> min_tile_size) n in
              if - (2 ^ 63) \<le> tile_size \<and> tile_size < 2 ^ 64 then
                let pos = argsort (map (tile_distance dimension tile_size) n);
                    pos = take (nat tile_options) pos
                in Inr (map (\<lambda>i. n ! i) pos)
              else Inl OverflowError
            else Inl OverflowError
      else Inl AssertionError)"

text \<open>The candidates that pass both masks, before ranking, and the order in which the
  ranking leaves them: by distance, then by value.\<close>

definition tile_candidates :: "int \<Rightarrow> int \<Rightarrow> int list" where
  "tile_candidates dimension lo =
     filter (\<lambda>n. dimension div n \<ge> lo)
       (filter (\<lambda>n. dimension div n div 8 * 8 * n = dimension) [1..dimension])"

definition closer :: "('a \<Rightarrow> int) \<Rightarrow> 'a::linorder \<Rightarrow> 'a \<Rightarrow> bool" where
  "closer f a b \<longleftrightarrow> f a < f b \<or> (f a = f b \<and> a < b)"

section \<open>Printing a list\<close>

text \<open>
  \<^verbatim>\<open>
  def parse_list(x: list[int], /) -> str:
      if len(x) == 0:
          return str(x[0])
      return str(x)
  \<close>
  \<open>str\<close> of an integer is its decimal numeral, \<open>str\<close> of a list puts the elements between
  brackets, separated by a comma and a space.
\<close>

fun str_nat :: "nat \<Rightarrow> string" where
  "str_nat n =
     (if n < 10 then [''0123456789'' ! n]
      else str_nat (n div 10) @ [''0123456789'' ! (n mod 10)])"

declare str_nat.simps [simp del]

definition str_int :: "int \<Rightarrow> string" where
  "str_int i = (if i < 0 then ''-'' @ str_nat (nat (- i)) else str_nat (nat i))"

fun join :: "string \<Rightarrow> string list \<Rightarrow> string" where
  "join sep [] = []"
| "join sep [s] = s"
| "join sep (s # t # ts) = s @ sep @ join sep (t # ts)"

definition str_list :: "int list \<Rightarrow> string" where
  "str_list xs = ''['' @ join '', '' (map str_int xs) @ '']''"

text \<open>
  Subscripting a Python list: \<open>x[i]\<close> reads position \<open>i\<close>, or position \<open>len(x) + i\<close> when
  \<open>i\<close> is negative, and raises \<open>IndexError\<close> when that position does not exist.
\<close>

definition getitem :: "'a list \<Rightarrow> int \<Rightarrow> error + 'a" where
  "getitem xs i =
     (if 0 \<le> i \<and> i < int (length xs) then Inr (xs ! nat i)
      else if i < 0 \<and> - int (length xs) \<le> i then Inr (xs ! nat (int (length xs) + i))
      else Inl IndexError)"

definition parse_list :: "int list \<Rightarrow> error + string" where
  "parse_list x =
     (if length x = 0 then
        (case getitem x 0 of Inl e \<Rightarrow> Inl e | Inr v \<Rightarrow> Inr (str_int v))
      else Inr (str_list x))"

section \<open>Tensors and the rearrangements of the wrapper\<close>

text \<open>
  A tensor is its shape and its elements in row-major order, as a contiguous tensor of
  the library stores them.  The elements are only moved by the code modelled here, never
  computed with, so their type is a parameter.
\<close>

record 'a tensor =
  shape :: "nat list"
  data :: "'a list"

definition wellformed :: "'a tensor \<Rightarrow> bool" where
  "wellformed x \<longleftrightarrow> length (data x) = prod_list (shape x)"

text \<open>The position of a multi-index in row-major order, and the multi-index of a position.\<close>

fun ravel :: "nat list \<Rightarrow> nat list \<Rightarrow> nat" where
  "ravel (n # ns) (i # is) = i * prod_list ns + ravel ns is"
| "ravel ns is = 0"

fun unravel :: "nat list \<Rightarrow> nat \<Rightarrow> nat list" where
  "unravel [] k = []"
| "unravel (n # ns) k = k div prod_list ns # unravel ns (k mod prod_list ns)"

text \<open>
  \<open>rearrange\<close> of einops views the input with every group of the left pattern split into
  its elementary axes (\<open>src\<close>), transposes the elementary axes into the order of the right
  pattern (\<open>dst\<close>) and merges the groups of the right pattern.  Element \<open>k\<close> of the output
  has the multi-index \<open>unravel dst k\<close>; position \<open>j\<close> of the multi-index of its source is
  position \<open>perm ! j\<close> of that.
\<close>

definition transpose_axes :: "nat list \<Rightarrow> nat list \<Rightarrow> nat list \<Rightarrow> 'a list \<Rightarrow> 'a list" where
  "transpose_axes src dst perm xs =
     map (\<lambda>k. xs ! ravel src (map (\<lambda>j. unravel dst k ! j) perm)) [0..<prod_list dst]"

text \<open>
  \<^verbatim>\<open>rearrange(x, "b c (nh h) (nw w) -> (b nh nw) c h w", nh=nh, nw=nw)\<close>
  fails unless \<open>x\<close> has four axes and \<open>nh\<close>, \<open>nw\<close> divide the last two.
\<close>

definition split_vae :: "int \<Rightarrow> int \<Rightarrow> 'a tensor \<Rightarrow> error + 'a tensor" where
  "split_vae nh nw x =
     (case shape x of
        [b, c, hh, ww] \<Rightarrow>
          if 0 < nh \<and> 0 < nw \<and> hh mod nat nh = 0 \<and> ww mod nat nw = 0 then
            let h = hh div nat nh; w = ww div nat nw in
            Inr \<lparr>shape = [b * nat nh * nat nw, c, h, w],
                 data = transpose_axes [b, c, nat nh, h, nat nw, w] [b, nat nh, nat nw, c, h, w]
                          [0, 3, 1, 4, 2, 5] (data x)\<rparr>
          else Inl EinopsError
      | _ \<Rightarrow> Inl EinopsError)"

text \<open>
  \<^verbatim>\<open>rearrange(out, "(b nh nw) c h w -> b c (nh h) (nw w)", nh=nh, nw=nw)\<close>
  fails unless \<open>out\<close> has four axes and \<open>nh * nw\<close> divides the first.
\<close>

definition merge_vae :: "int \<Rightarrow> int \<Rightarrow> 'a tensor \<Rightarrow> error + 'a tensor" where
  "merge_vae nh nw out =
     (case shape out of
        [bb, c, h, w] \<Rightarrow>
          if 0 < nh \<and> 0 < nw \<and> bb mod (nat nh * nat nw) = 0 then
            let b = bb div (nat nh * nat nw) in
            Inr \<lparr>shape = [b, c, nat nh * h, nat nw * w],
                 data = transpose_axes [b, nat nh, nat nw, c, h, w] [b, c, nat nh, h, nat nw, w]
                          [0, 2, 4, 1, 3, 5] (data out)\<rparr>
          else Inl EinopsError
      | _ \<Rightarrow> Inl EinopsError)"

text \<open>
  \<^verbatim>\<open>rearrange(x, "b (nh h nw w) c -> (b nh nw) (h w) c", h=h, w=w, nh=nh, nw=nw)\<close>
  fails unless \<open>x\<close> has three axes and the middle one has length \<open>nh * h * nw * w\<close>.
\<close>

definition split_unet :: "int \<Rightarrow> int \<Rightarrow> int \<Rightarrow> int \<Rightarrow> 'a tensor \<Rightarrow> error + 'a tensor" where
  "split_unet nh nw h w x =
     (case shape x of
        [b, l, c] \<Rightarrow>
          if 0 < nh \<and> 0 < nw \<and> 0 < h \<and> 0 < w \<and> int l = nh * h * nw * w then
            Inr \<lparr>shape = [b * nat nh * nat nw, nat h * nat w, c],
                 data = transpose_axes [b, nat nh, nat h, nat nw, nat w, c]
                          [b, nat nh, nat nw, nat h, nat w, c] [0, 1, 3, 2, 4, 5] (data x)\<rparr>
          else Inl EinopsError
      | _ \<Rightarrow> Inl EinopsError)"

text \<open>
  \<^verbatim>\<open>rearrange(out, "(b nh nw) hw c -> b nh nw hw c", nh=nh, nw=nw)\<close>
  only splits the first axis: the elements stay where they are.
\<close>

definition unfold_unet :: "int \<Rightarrow> int \<Rightarrow> 'a tensor \<Rightarrow> error + 'a tensor" where
  "unfold_unet nh nw out =
     (case shape out of
        [bb, hw, c] \<Rightarrow>
          if 0 < nh \<and> 0 < nw \<and> bb mod (nat nh * nat nw) = 0 then
            Inr \<lparr>shape = [bb div (nat nh * nat nw), nat nh, nat nw, hw, c], data = data out\<rparr>
          else Inl EinopsError
      | _ \<Rightarrow> Inl EinopsError)"

text \<open>
  \<^verbatim>\<open>rearrange(out, "b nh nw (h w) c -> b (nh h nw w) c", h=h, w=w)\<close>
  fails unless \<open>out\<close> has five axes and the fourth has length \<open>h * w\<close>.
\<close>

definition merge_unet :: "int \<Rightarrow> int \<Rightarrow> 'a tensor \<Rightarrow> error + 'a tensor" where
  "merge_unet h w out =
     (case shape out of
        [b, nh, nw, l, c] \<Rightarrow>
          if 0 < h \<and> 0 < w \<and> int l = h * w then
            Inr \<lparr>shape = [b, nh * nat h * nw * nat w, c],
                 data = transpose_axes [b, nh, nw, nat h, nat w, c] [b, nh, nat h, nw, nat w, c]
                          [0, 1, 3, 2, 4, 5] (data out)\<rparr>
          else Inl EinopsError
      | _ \<Rightarrow> Inl EinopsError)"

section \<open>The forward wrapper\<close>

text \<open>
  \<open>random.randint(a, b)\<close> raises \<open>ValueError\<close> on an empty range; otherwise it returns a
  number of the range, computed here from the raw output \<open>r\<close> of the generator.
\<close>

definition randint :: "int \<Rightarrow> int \<Rightarrow> nat \<Rightarrow> error + int" where
  "randint a b r = (if b < a then Inl ValueError else Inr (a + int r mod (b - a + 1)))"

text \<open>
  \<^verbatim>\<open>make_ns = lambda: (nhs[random.randint(0, len(nhs) - 1)],
                    nws[random.randint(0, len(nws) - 1)])\<close>
  with the two raw outputs of the generator as \<open>rnd\<close>.
\<close>

definition make_ns :: "int list \<Rightarrow> int list \<Rightarrow> nat \<times> nat \<Rightarrow> error + int \<times> int" where
  "make_ns nhs nws rnd =
     (case randint 0 (int (length nhs) - 1) (fst rnd) of
        Inl e \<Rightarrow> Inl e
      | Inr i \<Rightarrow>
     (case getitem nhs i of
        Inl e \<Rightarrow> Inl e
      | Inr nh \<Rightarrow>
     (case randint 0 (int (length nws) - 1) (snd rnd) of
        Inl e \<Rightarrow> Inl e
      | Inr j \<Rightarrow>
     (case getitem nws j of
        Inl e \<Rightarrow> Inl e
      | Inr nw \<Rightarrow> Inr (nh, nw)))))"

text \<open>
  The state a wrapper call reads and writes: the module-level variables \<open>height\<close>,
  \<open>width\<close>, \<open>max_h\<close>, \<open>max_w\<close>, \<open>error_reported\<close>, \<open>reset_needed\<close>, and the two cells
  \<open>nhs\<close>, \<open>nws\<close> of the activation of \<open>split_attention\<close> that made the wrapper.
\<close>

record hypertile =
  height :: int
  width :: int
  max_h :: int
  max_w :: int
  error_reported :: bool
  reset_needed :: bool
  nhs :: "int list"
  nws :: "int list"

text \<open>
  \<open>reset_nhs\<close> and \<open>reset_nws\<close> assign the cell when \<open>possible_tile_sizes\<close> returns, and
  leave it when it raises.
\<close>

definition reset_nhs :: "int \<Rightarrow> int \<Rightarrow> int \<Rightarrow> hypertile \<Rightarrow> error option \<times> hypertile" where
  "reset_nhs tile_size min_tile_size swap_size s =
     (case possible_tile_sizes (height s) tile_size min_tile_size swap_size of
        Inl e \<Rightarrow> (Some e, s)
      | Inr ns \<Rightarrow> (None, s\<lparr>nhs := ns\<rparr>))"

definition reset_nws :: "int \<Rightarrow> int \<Rightarrow> int \<Rightarrow> hypertile \<Rightarrow> error option \<times> hypertile" where
  "reset_nws tile_size min_tile_size swap_size s =
     (case possible_tile_sizes (width s) tile_size min_tile_size swap_size of
        Inl e \<Rightarrow> (Some e, s)
      | Inr ns \<Rightarrow> (None, s\<lparr>nws := ns\<rparr>))"

text \<open>
  Lines 78 to 92 of the wrapper, for the stage size \<open>h\<close>, \<open>w\<close>: the result is the exception
  raised, if any, and the state as the assignments made before it left it.
  \<^verbatim>\<open>
  if reset_needed:
      reset_nhs()
      reset_nws()
      max_h = height
      max_w = width
      reset_needed = False
  else:
      if h > max_h:
          height = 8 * h
          max_h = max(max_h, h)
          reset_nhs()
      if w > max_w:
          width = 8 * w
          max_w = max(max_w, w)
          reset_nws()
  \<close>
\<close>

definition track_size ::
  "int \<Rightarrow> int \<Rightarrow> int \<Rightarrow> int \<Rightarrow> int \<Rightarrow> hypertile \<Rightarrow> error option \<times> hypertile" where
  "track_size tile_size min_tile_size swap_size h w s =
     (if reset_needed s then
        (case reset_nhs tile_size min_tile_size swap_size s of
           (Some e, s1) \<Rightarrow> (Some e, s1)
         | (None, s1) \<Rightarrow>
        (case reset_nws tile_size min_tile_size swap_size s1 of
           (Some e, s2) \<Rightarrow> (Some e, s2)
         | (None, s2) \<Rightarrow>
             (None, s2\<lparr>max_h := height s2, max_w := width s2, reset_needed := False\<rparr>)))
      else
        (case (if h > max_h s
               then reset_nhs tile_size min_tile_size swap_size
                      (s\<lparr>height := 8 * h, max_h := max (max_h s) h\<rparr>)
               else (None, s)) of
           (Some e, s1) \<Rightarrow> (Some e, s1)
         | (None, s1) \<Rightarrow>
             (if w > max_w s1
              then reset_nws tile_size min_tile_size swap_size
                     (s1\<lparr>width := 8 * w, max_w := max (max_w s1) w\<rparr>)
              else (None, s1))))"

text \<open>
  The branch for a tensor of four axes, lines 68 to 72.  The wrapped forward computation
  is a function of its input tensor that may raise.
  \<^verbatim>\<open>
  if nh * nw > 1:
      x = rearrange(x, "b c (nh h) (nw w) -> (b nh nw) c h w", nh=nh, nw=nw)
  out = forward(x, *args[1:], **kwargs)
  if nh * nw > 1:
      out = rearrange(out, "(b nh nw) c h w -> b c (nh h) (nw w)", nh=nh, nw=nw)
  \<close>
\<close>

definition vae_branch ::
  "('a tensor \<Rightarrow> error + 'a tensor) \<Rightarrow> int \<Rightarrow> int \<Rightarrow> 'a tensor \<Rightarrow> error + 'a tensor" where
  "vae_branch forward nh nw x =
     (case (if nh * nw > 1 then split_vae nh nw x else Inr x) of
        Inl e \<Rightarrow> Inl e
      | Inr x1 \<Rightarrow>
     (case forward x1 of
        Inl e \<Rightarrow> Inl e
      | Inr out \<Rightarrow> (if nh * nw > 1 then merge_vae nh nw out else Inr out)))"

text \<open>
  The guarded part of the other branch, lines 99 to 111.  \<open>partitioned\<close> is the \<open>try\<close>
  block: its result, and the tensor that the variable \<open>x\<close> holds when the block is left.
  The handler sets \<open>error_reported\<close> (and logs, the first time) and calls \<open>forward\<close> on
  the variable \<open>x\<close>.
  \<^verbatim>\<open>
  try:
      if do_split:
          x = rearrange(x, "b (nh h nw w) c -> (b nh nw) (h w) c",
                        h=h // nh, w=w // nw, nh=nh, nw=nw)
      out = forward(x, *args[1:], **kwargs)
      if do_split:
          out = rearrange(out, "(b nh nw) hw c -> b nh nw hw c", nh=nh, nw=nw)
          out = rearrange(out, "b nh nw (h w) c -> b (nh h nw w) c", h=h // nh, w=w // nw)
  except Exception as e:
      if not error_reported:
          error_reported = True
          log.error(...)
      out = forward(x, *args[1:], **kwargs)
  return out
  \<close>
\<close>

definition partitioned ::
  "('a tensor \<Rightarrow> error + 'a tensor) \<Rightarrow> bool \<Rightarrow> int \<Rightarrow> int \<Rightarrow> int \<Rightarrow> int \<Rightarrow> 'a tensor \<Rightarrow>
     (error + 'a tensor) \<times> 'a tensor" where
  "partitioned forward do_split nh nw h w x =
     (case (if do_split then split_unet nh nw (h div nh) (w div nw) x else Inr x) of
        Inl e \<Rightarrow> (Inl e, x)
      | Inr x1 \<Rightarrow>
     (case forward x1 of
        Inl e \<Rightarrow> (Inl e, x1)
      | Inr out \<Rightarrow>
          (if do_split then
             (case unfold_unet nh nw out of
                Inl e \<Rightarrow> (Inl e, x1)
              | Inr out1 \<Rightarrow> (merge_unet (h div nh) (w div nw) out1, x1))
           else (Inr out, x1))))"

definition guarded ::
  "('a tensor \<Rightarrow> error + 'a tensor) \<Rightarrow> bool \<Rightarrow> int \<Rightarrow> int \<Rightarrow> int \<Rightarrow> int \<Rightarrow> 'a tensor \<Rightarrow>
     hypertile \<Rightarrow> (error + 'a tensor) \<times> hypertile" where
  "guarded forward do_split nh nw h w x s =
     (case partitioned forward do_split nh nw h w x of
        (Inr out, x1) \<Rightarrow> (Inr out, s)
      | (Inl e, x1) \<Rightarrow> (forward x1, s\<lparr>error_reported := True\<rparr>))"

text \<open>
  The other branch, lines 74 to 98.  Its two floating-point computations are parameters:
  \<open>stage hw\<close> is the pair \<^verbatim>\<open>round(math.sqrt(ar * hw)), round(math.sqrt(hw / ar))\<close> for
  the aspect ratio \<open>ar\<close> of the activation, and \<open>log2_round r\<close> is
  \<^verbatim>\<open>round(math.log(r, 2))\<close>; both may raise.
  \<^verbatim>\<open>
  hw = x.size(1)
  h, w = round(math.sqrt(ar * hw)), round(math.sqrt(hw / ar))
  ...
  down_ratio = height // 8 // h
  curr_depth = round(math.log(down_ratio, 2))
  nh = max(1, nh // down_ratio)
  nw = max(1, nw // down_ratio)
  do_split = curr_depth <= depth and h % nh == 0 and w % nw == 0 and nh * nw > 1
  \<close>
\<close>

definition unet_branch ::
  "(nat \<Rightarrow> error + int \<times> int) \<Rightarrow> (int \<Rightarrow> error + int) \<Rightarrow> int \<Rightarrow> int \<Rightarrow> int \<Rightarrow> int \<Rightarrow>
     ('a tensor \<Rightarrow> error + 'a tensor) \<Rightarrow> int \<Rightarrow> int \<Rightarrow> 'a tensor \<Rightarrow> hypertile \<Rightarrow>
     (error + 'a tensor) \<times> hypertile" where
  "unet_branch stage log2_round tile_size min_tile_size swap_size depth forward nh nw x s =
     (case shape x of
        b # hw # rest \<Rightarrow>
          (case stage hw of
             Inl e \<Rightarrow> (Inl e, s)
           | Inr (h, w) \<Rightarrow>
          (case track_size tile_size min_tile_size swap_size h w s of
             (Some e, s1) \<Rightarrow> (Inl e, s1)
           | (None, s1) \<Rightarrow>
               if h = 0 then (Inl ZeroDivisionError, s1)
               else
                 let down_ratio = height s1 div 8 div h in
                 (case log2_round down_ratio of
                    Inl e \<Rightarrow> (Inl e, s1)
                  | Inr curr_depth \<Rightarrow>
                      if down_ratio = 0 then (Inl ZeroDivisionError, s1)
                      else
                        let nh = max 1 (nh div down_ratio);
                            nw = max 1 (nw div down_ratio);
                            do_split = (curr_depth \<le> depth \<and> h mod nh = 0 \<and> w mod nw = 0 \<and>
                                        nh * nw > 1)
                        in guarded forward do_split nh nw h w x s1)))
      | _ \<Rightarrow> (Inl IndexError, s))"

text \<open>
  The wrapper that \<open>self_attn_forward(forward)\<close> returns: the draw of the tile grid comes
  first, then the branch on the number of axes of the input.
  \<^verbatim>\<open>
  nh, nw = make_ns()
  x = args[0]
  if x.ndim == 4: # VAE
      ...
  else: # Unet
      ...
  return out
  \<close>
\<close>

definition wrapper ::
  "(nat \<Rightarrow> error + int \<times> int) \<Rightarrow> (int \<Rightarrow> error + int) \<Rightarrow> int \<Rightarrow> int \<Rightarrow> int \<Rightarrow> int \<Rightarrow>
     ('a tensor \<Rightarrow> error + 'a tensor) \<Rightarrow> nat \<times> nat \<Rightarrow> 'a tensor \<Rightarrow> hypertile \<Rightarrow>
     (error + 'a tensor) \<times> hypertile" where
  "wrapper stage log2_round tile_size min_tile_size swap_size depth forward rnd x s =
     (case make_ns (nhs s) (nws s) rnd of
        Inl e \<Rightarrow> (Inl e, s)
      | Inr (nh, nw) \<Rightarrow>
          if length (shape x) = 4 then (vae_branch forward nh nw x, s)
          else unet_branch stage log2_round tile_size min_tile_size swap_size depth
                 forward nh nw x s)"

section \<open>The scoped activation\<close>

text \<open>
  A forward handle is a callable object with an identity.  It is a bound method, made
  from a function of the class and the submodule it is bound to, or the closure \<open>wrapper\<close>
  that \<open>self_attn_forward\<close> returns, which holds the callable it was given.
\<close>

type_synonym addr = nat

datatype callable =
    Method nat nat addr
  | Closure nat callable





text \<open>
  Of a submodule, what the code reads and writes: the name of its class, the function
  \<open>forward\<close> of its class, and the two entries \<open>forward\<close> and \<open>_original_forward\<close> of the
  instance, each absent (\<open>None\<close>) or present.
\<close>

record module_obj =
  qualname :: string
  class_forward :: nat
  instance_forward :: "callable option"
  original_forward :: "callable option"

text \<open>
  Submodules are objects: the store maps the address of each to its attributes and holds
  the identity that the next new object gets.  \<open>layer.named_modules()\<close> is a list of names
  with addresses.
\<close>

record store =
  modules :: "addr \<Rightarrow> module_obj"
  next_ident :: nat

text \<open>
  The expression \<open>module.forward\<close>: the entry of the instance when there is one, and
  otherwise a bound method that the access makes, a new object each time.
\<close>

definition read_forward :: "addr \<Rightarrow> store \<Rightarrow> callable \<times> store" where
  "read_forward a st =
     (case instance_forward (modules st a) of
        Some c \<Rightarrow> (c, st)
      | None \<Rightarrow>
          (Method (next_ident st) (class_forward (modules st a)) a,
           st\<lparr>next_ident := Suc (next_ident st)\<rparr>))"

text \<open>
  \<open>self_attn_forward(forward)\<close> returns a new closure around \<open>forward\<close>; what the closure
  does when called is \<open>wrapper\<close> above.
\<close>

definition self_attn_forward :: "callable \<Rightarrow> store \<Rightarrow> callable \<times> store" where
  "self_attn_forward forward st =
     (Closure (next_ident st) forward, st\<lparr>next_ident := Suc (next_ident st)\<rparr>)"

text \<open>\<open>setattr\<close> and \<open>del\<close> on the two entries of the instance.\<close>

definition set_forward :: "addr \<Rightarrow> callable \<Rightarrow> store \<Rightarrow> store" where
  "set_forward a c st =
     st\<lparr>modules := (modules st)(a := (modules st a)\<lparr>instance_forward := Some c\<rparr>)\<rparr>"

definition set_original_forward :: "addr \<Rightarrow> callable \<Rightarrow> store \<Rightarrow> store" where
  "set_original_forward a c st =
     st\<lparr>modules := (modules st)(a := (modules st a)\<lparr>original_forward := Some c\<rparr>)\<rparr>"

definition del_original_forward :: "addr \<Rightarrow> store \<Rightarrow> store" where
  "del_original_forward a st =
     st\<lparr>modules := (modules st)(a := (modules st a)\<lparr>original_forward := None\<rparr>)\<rparr>"

definition endswith :: "string \<Rightarrow> string \<Rightarrow> bool" where
  "endswith name ending \<longleftrightarrow>
     length ending \<le> length name \<and> drop (length name - length ending) name = ending"

text \<open>
  The body of the first loop for a submodule that passes its tests, lines 119 and 120:
  \<open>module.forward\<close> is evaluated twice.
  \<^verbatim>\<open>
  setattr(module, "_original_forward", module.forward)
  setattr(module, "forward", self_attn_forward(module.forward))
  \<close>
\<close>

definition hijack_module :: "addr \<Rightarrow> store \<Rightarrow> store" where
  "hijack_module a st =
     (let (saved, st1) = read_forward a st;
          st2 = set_original_forward a saved st1;
          (forward, st3) = read_forward a st2;
          (closure, st4) = self_attn_forward forward st3
      in set_forward a closure st4)"

text \<open>
  The loop of lines 115 to 120, with the addresses of the submodules it patched, in order.
  \<^verbatim>\<open>
  for name, module in layer.named_modules():
      if module.__class__.__qualname__ in ("Attention", "CrossAttention", "AttnBlock"):
          if name.endswith("attn2") or name.endswith("attn_2"):
              continue
          setattr(module, "_original_forward", module.forward)
          setattr(module, "forward", self_attn_forward(module.forward))
  \<close>
\<close>

fun hijack :: "(string \<times> addr) list \<Rightarrow> store \<Rightarrow> store \<times> addr list" where
  "hijack [] st = (st, [])"
| "hijack ((name, a) # rest) st =
     (if qualname (modules st a) \<in> set [''Attention'', ''CrossAttention'', ''AttnBlock''] then
        if endswith name ''attn2'' \<or> endswith name ''attn_2'' then hijack rest st
        else
          let (st1, ps) = hijack rest (hijack_module a st)
          in (st1, a # ps)
      else hijack rest st)"

text \<open>
  The body of the second loop for a submodule that has the entry, lines 125 and 126.
  \<^verbatim>\<open>
  setattr(module, "forward", module._original_forward)
  del module._original_forward
  \<close>
\<close>

definition restore_module :: "addr \<Rightarrow> callable \<Rightarrow> store \<Rightarrow> store" where
  "restore_module a saved st = del_original_forward a (set_forward a saved st)"

text \<open>
  The loop of lines 123 to 126, with the addresses of the submodules it restored, in order.
  \<^verbatim>\<open>
  for _name, module in layer.named_modules():
      if hasattr(module, "_original_forward"):
          setattr(module, "forward", module._original_forward)
          del module._original_forward
  \<close>
\<close>

fun restore :: "(string \<times> addr) list \<Rightarrow> store \<Rightarrow> store \<times> addr list" where
  "restore [] st = (st, [])"
| "restore ((name, a) # rest) st =
     (case original_forward (modules st a) of
        Some saved \<Rightarrow>
          let (st1, rs) = restore rest (restore_module a saved st)
          in (st1, a # rs)
      | None \<Rightarrow> restore rest st)"

text \<open>
  Calling a handle on a tensor: a bound method of the function \<open>f\<close> computes \<open>impl f\<close>; the
  closure made for a bound method runs the wrapper around it.  A closure around a closure
  does not arise within one activation that starts without a patch, and calling one is
  left unspecified.
\<close>

fun call_forward ::
  "(nat \<Rightarrow> error + int \<times> int) \<Rightarrow> (int \<Rightarrow> error + int) \<Rightarrow> int \<Rightarrow> int \<Rightarrow> int \<Rightarrow> int \<Rightarrow>
     (nat \<Rightarrow> 'a tensor \<Rightarrow> error + 'a tensor) \<Rightarrow> callable \<Rightarrow> nat \<times> nat \<Rightarrow> 'a tensor \<Rightarrow> hypertile \<Rightarrow>
     (error + 'a tensor) \<times> hypertile" where
  "call_forward stage log2_round tile_size min_tile_size swap_size depth impl (Method i f a) rnd x s =
     (impl f x, s)"
| "call_forward stage log2_round tile_size min_tile_size swap_size depth impl
     (Closure i (Method j f a)) rnd x s =
     wrapper stage log2_round tile_size min_tile_size swap_size depth (impl f) rnd x s"

text \<open>
  The yielded region either returns or raises.  It runs the inference: it reads the state
  and the handles of the submodules, calls them through the closures of the activation
  (its first argument), and assigns no attribute of a submodule.
\<close>

datatype outcome = Returned | Raised error

text \<open>
  What an activation leaves: the outcome of the scope, the state at exit, the store that
  the region ran with and the store at exit, and the addresses of the submodules that the
  first loop patched and that the second loop restored.
\<close>

record activation =
  outcome :: outcome
  state_at_exit :: hypertile
  store_in_scope :: store
  store_at_exit :: store
  patched :: "addr list"
  restored :: "addr list"

text \<open>
  \<open>split_attention\<close> as a scope around the region \<open>block\<close>.  Lines 46 to 48 run before the
  \<open>try\<close>: an exception there leaves the scope with nothing patched.  The \<open>finally\<close> runs
  on both outcomes of the region, and the outcome of the scope is that of the region.
  The floating-point computations \<open>stage\<close> (which depends on \<open>ar\<close>) and \<open>log2_round\<close> and
  the meaning \<open>impl\<close> of the functions of the classes are given; the wrappers made by the
  activation capture them with its arguments.  The quotient \<open>ar\<close> itself is a float and is
  not represented: of line 46 only the division by zero is kept.
  \<^verbatim>\<open>
  ar = height / width
  nhs = possible_tile_sizes(height, tile_size, min_tile_size, swap_size)
  nws = possible_tile_sizes(width, tile_size, min_tile_size, swap_size)
  ...
  try:
      for name, module in layer.named_modules(): ...
      yield
  finally:
      for _name, module in layer.named_modules(): ...
  \<close>
\<close>

definition split_attention ::
  "(nat \<Rightarrow> error + int \<times> int) \<Rightarrow> (int \<Rightarrow> error + int) \<Rightarrow>
     (nat \<Rightarrow> 'a tensor \<Rightarrow> error + 'a tensor) \<Rightarrow>
     (string \<times> addr) list \<Rightarrow> int \<Rightarrow> int \<Rightarrow> int \<Rightarrow> int \<Rightarrow>
     ((callable \<Rightarrow> nat \<times> nat \<Rightarrow> 'a tensor \<Rightarrow> hypertile \<Rightarrow> (error + 'a tensor) \<times> hypertile) \<Rightarrow>
        hypertile \<Rightarrow> store \<Rightarrow> outcome \<times> hypertile) \<Rightarrow>
     hypertile \<Rightarrow> store \<Rightarrow> activation" where
  "split_attention stage log2_round impl layer tile_size min_tile_size swap_size depth block s st =
     (if width s = 0 then
        \<lparr>outcome = Raised ZeroDivisionError, state_at_exit = s, store_in_scope = st,
         store_at_exit = st, patched = [], restored = []\<rparr>
      else
        (case possible_tile_sizes (height s) tile_size min_tile_size swap_size of
           Inl e \<Rightarrow>
             \<lparr>outcome = Raised e, state_at_exit = s, store_in_scope = st,
              store_at_exit = st, patched = [], restored = []\<rparr>
         | Inr ns1 \<Rightarrow>
        (case possible_tile_sizes (width s) tile_size min_tile_size swap_size of
           Inl e \<Rightarrow>
             \<lparr>outcome = Raised e, state_at_exit = s, store_in_scope = st,
              store_at_exit = st, patched = [], restored = []\<rparr>
         | Inr ns2 \<Rightarrow>
             let (st1, ps) = hijack layer st;
                 (r, s1) =
                   block (call_forward stage log2_round tile_size min_tile_size swap_size depth impl)
                     (s\<lparr>nhs := ns1, nws := ns2\<rparr>) st1;
                 (st2, rs) = restore layer st1
             in \<lparr>outcome = r, state_at_exit = s1, store_in_scope = st1,
                 store_at_exit = st2, patched = ps, restored = rs\<rparr>)))"

section \<open>Vocabulary of the proofs\<close>





section \<open>Example inputs\<close>

text \<open>
  A network of three submodules whose \<open>forward\<close> is the function of their class: a
  self-attention block, a cross-attention layer (its name ends in \<open>attn2\<close>) and a
  normalisation layer; the module-level state at the start of a job of a given height and
  width; functions of the classes that return their input; a region that calls the
  \<open>forward\<close> of submodule 0 once, on the tensor \<open>x\<close>, and lets its exception through; and a
  region that raises at once.
\<close>

definition demo_layer :: "(string \<times> addr) list" where
  "demo_layer = [(''mid.attn_1'', 0), (''up.attn2'', 1), (''mid.norm'', 2)]"

definition demo_store :: store where
  "demo_store =
     \<lparr>modules = (\<lambda>a.
        if a = 0 then
          \<lparr>qualname = ''AttnBlock'', class_forward = 0, instance_forward = None,
           original_forward = None\<rparr>
        else if a = 1 then
          \<lparr>qualname = ''Attention'', class_forward = 1, instance_forward = None,
           original_forward = None\<rparr>
        else
          \<lparr>qualname = ''GroupNorm'', class_forward = 2, instance_forward = None,
           original_forward = None\<rparr>),
      next_ident = 0\<rparr>"

definition demo_state :: "int \<Rightarrow> int \<Rightarrow> hypertile" where
  "demo_state h w =
     \<lparr>height = h, width = w, max_h = 0, max_w = 0, error_reported = False,
      reset_needed = False, nhs = [], nws = []\<rparr>"

definition demo_impl :: "nat \<Rightarrow> nat tensor \<Rightarrow> error + nat tensor" where
  "demo_impl k y = Inr y"

definition demo_region ::
  "nat tensor \<Rightarrow>
     (callable \<Rightarrow> nat \<times> nat \<Rightarrow> nat tensor \<Rightarrow> hypertile \<Rightarrow> (error + nat tensor) \<times> hypertile) \<Rightarrow>
     hypertile \<Rightarrow> store \<Rightarrow> outcome \<times> hypertile" where
  "demo_region x call s st =
     (case call (fst (read_forward 0 st)) (0, 0) x s of
        (Inl e, s1) \<Rightarrow> (Raised e, s1)
      | (Inr y, s1) \<Rightarrow> (Returned, s1))"


text \<open>
  A sequence of 8 positions for a stage of 4 by 2 (aspect ratio 2), the two floating-point
  computations at that stage (\<open>sqrt(2 * 8) = 4\<close>, \<open>sqrt(8 / 2) = 2\<close>, \<open>log(1, 2) = 0\<close>), and a
  wrapped computation that accepts a sequence of 8 positions only.
\<close>

definition demo_sequence :: "nat tensor" where
  "demo_sequence = \<lparr>shape = [1, 8, 1], data = [0, 1, 2, 3, 4, 5, 6, 7]\<rparr>"

definition demo_stage :: "nat \<Rightarrow> error + int \<times> int" where
  "demo_stage hw = (if hw = 8 then Inr (4, 2) else Inl ValueError)"

definition demo_log2_round :: "int \<Rightarrow> error + int" where
  "demo_log2_round r = (if r = 1 then Inr 0 else Inl ValueError)"

definition fixed_length_forward :: "nat tensor \<Rightarrow> error + nat tensor" where
  "fixed_length_forward t = (if shape t = [1, 8, 1] then Inr t else Inl ForwardError)"




section \<open>Properties of the tile size selector\<close>

lemma insort_key_map_nth:
  "map g (insort_key (\<lambda>i. f (g i)) i js) = insort_key f (g i) (map g js)"
  by (induction js) auto

lemma sort_key_map_nth:
  "map g (sort_key (\<lambda>i. f (g i)) js) = sort_key f (map g js)"
  by (induction js) (auto simp: insort_key_map_nth)

lemma insort_key_eq_on:
  "f x = g x \<Longrightarrow> \<forall>y\<in>set ys. f y = g y \<Longrightarrow> insort_key f x ys = insort_key g x ys"
  by (induction ys) auto

lemma sort_key_eq_on:
  "\<forall>y\<in>set ys. f y = g y \<Longrightarrow> sort_key f ys = sort_key g ys"
proof (induction ys)
  case Nil
  then show ?case by simp
next
  case (Cons y ys)
  then have "sort_key f ys = sort_key g ys" by simp
  moreover have "insort_key f y (sort_key g ys) = insort_key g y (sort_key g ys)"
    using Cons.prems by (intro insort_key_eq_on) auto
  ultimately show ?case by simp
qed

lemma argsort_select:
  "map (\<lambda>i. xs ! i) (take k (argsort (map f xs))) = take k (sort_key f xs)"
proof -
  have "sort_key (\<lambda>i. map f xs ! i) [0..<length xs] = sort_key (\<lambda>i. f (xs ! i)) [0..<length xs]"
    by (rule sort_key_eq_on) auto
  then have "map (\<lambda>i. xs ! i) (argsort (map f xs)) = sort_key f (map (\<lambda>i. xs ! i) [0..<length xs])"
    by (simp add: argsort_def sort_key_map_nth)
  then show ?thesis by (simp add: take_map [symmetric] map_nth)
qed

lemma possible_tile_sizes_Inr:
  assumes "possible_tile_sizes dimension tile_size min_tile_size tile_options = Inr ns"
  shows "1 \<le> tile_options \<and> 0 \<le> dimension \<and> dimension < 2 ^ 60 \<and>
    ns = take (nat tile_options) (sort_key (tile_distance dimension tile_size)
           (tile_candidates dimension (min min_tile_size (min tile_size dimension))))"
  using assms
  by (auto simp: possible_tile_sizes_def arange_def Let_def argsort_select tile_candidates_def
      split: if_splits)

lemma tile_candidates_iff:
  "n \<in> set (tile_candidates dimension lo) \<longleftrightarrow>
     1 \<le> n \<and> n \<le> dimension \<and> dimension div n div 8 * 8 * n = dimension \<and> lo \<le> dimension div n"
  by (auto simp: tile_candidates_def)

lemma candidate_divides:
  fixes dimension n :: int
  assumes "1 \<le> n" "dimension div n div 8 * 8 * n = dimension"
  shows "dimension mod n = 0 \<and> dimension div n mod 8 = 0"
proof -
  have "n dvd dimension"
    by (metis assms(2) dvd_triv_right)
  then have d: "dimension div n * n = dimension" by simp
  have "dimension div n div 8 * 8 * n = dimension div n * n"
    using assms(2) d by simp
  then have "dimension div n div 8 * 8 = dimension div n"
    using assms(1) by simp
  then have "8 dvd dimension div n"
    by (metis dvd_triv_right)
  with \<open>n dvd dimension\<close> show ?thesis by auto
qed

lemma closer_insort_key:
  assumes "sorted_wrt (closer f) ys" "\<forall>y\<in>set ys. x < y"
  shows "sorted_wrt (closer f) (insort_key f x ys)"
  using assms
proof (induction ys)
  case Nil
  then show ?case by simp
next
  case (Cons y ys)
  show ?case
  proof (cases "f x \<le> f y")
    case True
    have "closer f x z" if "z \<in> set (y # ys)" for z
    proof -
      have "f y \<le> f z" using that Cons.prems(1) by (auto simp: closer_def)
      moreover have "x < z" using that Cons.prems(2) by auto
      ultimately show ?thesis using True by (auto simp: closer_def)
    qed
    then show ?thesis using True Cons.prems(1) by simp
  next
    case False
    then have "closer f y x" by (simp add: closer_def)
    moreover have "sorted_wrt (closer f) (insort_key f x ys)"
      using Cons by simp
    ultimately show ?thesis
      using False Cons.prems(1) by (auto simp: set_insort_key)
  qed
qed

lemma closer_sort_key:
  "sorted_wrt (<) xs \<Longrightarrow> sorted_wrt (closer f) (sort_key f xs)"
  by (induction xs) (auto intro: closer_insort_key)

lemma sorted_tile_candidates: "sorted_wrt (<) (tile_candidates dimension lo)"
  by (simp add: tile_candidates_def sorted_wrt_filter)

lemma wrap64_id: "- (2 ^ 63) \<le> x \<Longrightarrow> x < 2 ^ 63 \<Longrightarrow> wrap64 x = x"
  by (simp add: wrap64_def)

lemma div_bounds:
  fixes d n :: int
  assumes "1 \<le> n" "n \<le> d"
  shows "1 \<le> d div n" "d div n \<le> d"
proof -
  have "0 < d div n" using assms by (simp add: pos_imp_zdiv_pos_iff)
  then show "1 \<le> d div n" by simp
  have "d div n \<le> d div 1" using assms by (intro zdiv_mono2) auto
  then show "d div n \<le> d" by simp
qed

lemma tile_distance_exact:
  assumes "1 \<le> n" "n \<le> dimension" "dimension < 2 ^ 63"
    and "dimension - 2 ^ 63 < tile_size" "tile_size < 2 ^ 63"
  shows "tile_distance dimension tile_size n = \<bar>dimension div n - tile_size\<bar>"
proof -
  have "1 \<le> dimension div n" "dimension div n \<le> dimension"
    using div_bounds assms by auto
  then have "- (2 ^ 63) < dimension div n - tile_size" "dimension div n - tile_size < 2 ^ 63"
    using assms by auto
  then show ?thesis
    by (simp add: tile_distance_def wrap64_id)
qed

text \<open>
  Claim C2.  For a dimension of at least 1 and \<open>tile_options\<close> of at least 1, every element
  \<open>n\<close> of the list that \<open>possible_tile_sizes\<close> returns divides the dimension, the
  quotient \<open>dimension // n\<close> is a multiple of 8, and the quotient is at least
  \<open>min(min_tile_size, tile_size, dimension)\<close>.
\<close>

theorem possible_tile_sizes_candidates_valid:
  assumes "1 \<le> dimension" "1 \<le> tile_options"
    and "possible_tile_sizes dimension tile_size min_tile_size tile_options = Inr ns"
    and "n \<in> set ns"
  shows "1 \<le> n \<and> dimension mod n = 0 \<and> dimension div n mod 8 = 0 \<and>
         dimension div n \<ge> min min_tile_size (min tile_size dimension)"
proof -
  from possible_tile_sizes_Inr [OF assms(3)] assms(4)
  have "n \<in> set (tile_candidates dimension (min min_tile_size (min tile_size dimension)))"
    by (auto dest: in_set_takeD)
  then show ?thesis
    using candidate_divides [of n dimension] by (auto simp: tile_candidates_iff)
qed

theorem possible_tile_sizes_candidates_valid_witness:
  "(1::int) \<le> 64 \<and> (1::int) \<le> 3 \<and> possible_tile_sizes 64 16 8 3 = Inr [4, 8, 2] \<and>
   (8::int) \<in> set [4, 8, 2] \<and>
   (1::int) \<le> 8 \<and> (64::int) mod 8 = 0 \<and> (64::int) div 8 mod 8 = 0 \<and>
   (64::int) div 8 \<ge> min 8 (min 16 64)"
proof -
  have r: "possible_tile_sizes 64 16 8 3 = Inr [4, 8, 2]"
    by (simp add: possible_tile_sizes_def arange_def argsort_def tile_distance_def wrap64_def
        upto_rec1)
  show ?thesis
    using r possible_tile_sizes_candidates_valid [of 64 3 16 8 "[4, 8, 2]" 8] by simp
qed

text \<open>
  Claim C3.  The list that \<open>possible_tile_sizes\<close> returns has at most \<open>tile_options\<close>
  elements, is ordered by ascending absolute difference between \<open>dimension // n\<close> and
  \<open>tile_size\<close>, and two candidates at the same distance appear in ascending order of \<open>n\<close>.
  The inputs are those whose distances fit the int64 elements of the tensor.
\<close>

theorem possible_tile_sizes_ranked:
  assumes "possible_tile_sizes dimension tile_size min_tile_size tile_options = Inr ns"
    and "dimension - 2 ^ 63 < tile_size" "tile_size < 2 ^ 63"
  shows "int (length ns) \<le> tile_options \<and>
         sorted (map (\<lambda>n. \<bar>dimension div n - tile_size\<bar>) ns) \<and>
         (\<forall>i j. i < j \<and> j < length ns \<and>
            \<bar>dimension div (ns ! i) - tile_size\<bar> = \<bar>dimension div (ns ! j) - tile_size\<bar>
            \<longrightarrow> ns ! i < ns ! j)"
proof -
  let ?f = "tile_distance dimension tile_size"
  let ?g = "\<lambda>n. \<bar>dimension div n - tile_size\<bar>"
  let ?cs = "tile_candidates dimension (min min_tile_size (min tile_size dimension))"
  from possible_tile_sizes_Inr [OF assms(1)]
  have k: "1 \<le> tile_options" and d: "dimension + 1 < 2 ^ 63"
    and ns: "ns = take (nat tile_options) (sort_key ?f ?cs)" by auto
  have "\<forall>n\<in>set ?cs. ?f n = ?g n"
    using d assms(2,3) by (auto simp: tile_candidates_iff intro!: tile_distance_exact)
  then have "sort_key ?f ?cs = sort_key ?g ?cs" by (rule sort_key_eq_on)
  then have ns': "ns = take (nat tile_options) (sort_key ?g ?cs)" using ns by simp
  have len: "int (length ns) \<le> tile_options" using k ns by simp
  have "sorted_wrt (closer ?g) (sort_key ?g ?cs)"
    by (rule closer_sort_key) (rule sorted_tile_candidates)
  then have cl: "sorted_wrt (closer ?g) ns"
    unfolding ns' by (rule sorted_wrt_take)
  then have "sorted_wrt (\<lambda>a b. ?g a \<le> ?g b) ns"
    by (rule sorted_wrt_mono_rel [rotated]) (auto simp: closer_def)
  then have srt: "sorted (map ?g ns)" by (simp add: sorted_wrt_map)
  have "ns ! i < ns ! j" if "i < j" "j < length ns" "?g (ns ! i) = ?g (ns ! j)" for i j
  proof -
    have "closer ?g (ns ! i) (ns ! j)"
      using cl that(1,2) by (simp add: sorted_wrt_iff_nth_less)
    then show ?thesis using that(3) by (simp add: closer_def)
  qed
  with len srt show ?thesis by blast
qed

theorem possible_tile_sizes_ranked_witness:
  "possible_tile_sizes 48 20 1 3 = Inr [2, 3, 6] \<and>
   (48::int) - 2 ^ 63 < 20 \<and> (20::int) < 2 ^ 63 \<and>
   int (length [2, 3, 6 :: int]) \<le> 3 \<and>
   sorted (map (\<lambda>n. \<bar>48 div n - 20\<bar>) [2, 3, 6 :: int]) \<and>
   \<bar>48 div ([2, 3, 6] ! 0) - 20\<bar> = \<bar>48 div ([2, 3, 6 :: int] ! 1) - 20\<bar> \<and>
   [2, 3, 6] ! 0 < ([2, 3, 6 :: int] ! 1)"
proof -
  have r: "possible_tile_sizes 48 20 1 3 = Inr [2, 3, 6]"
    by (simp add: possible_tile_sizes_def arange_def argsort_def tile_distance_def wrap64_def
        upto_rec1)
  show ?thesis
    using r possible_tile_sizes_ranked [of 48 20 1 3 "[2, 3, 6]"] by simp
qed

lemma no_split_first:
  assumes "1 \<le> dimension" "8 dvd dimension" "dimension < 2 ^ 60"
  shows "take 1 (sort_key (tile_distance dimension dimension)
           (tile_candidates dimension (min 1 (min dimension dimension)))) = [1]"
proof -
  let ?f = "tile_distance dimension dimension"
  let ?cs = "tile_candidates dimension (min 1 (min dimension dimension))"
  have d: "dimension < 2 ^ 63" using assms(3) by simp
  have one: "1 \<in> set ?cs"
    using assms(1,2) by (simp add: tile_candidates_iff)
  have f1: "?f 1 = 0" by (simp add: tile_distance_def wrap64_def)
  have fn: "0 \<le> ?f n" if "n \<in> set ?cs" for n
    using that d assms(1) by (subst tile_distance_exact) (auto simp: tile_candidates_iff)
  have "sorted_wrt (closer ?f) (sort_key ?f ?cs)"
    by (rule closer_sort_key) (rule sorted_tile_candidates)
  moreover have "sort_key ?f ?cs \<noteq> []"
    using one by (metis empty_iff list.set(1) set_sort)
  then obtain x xs where xs: "sort_key ?f ?cs = x # xs"
    by (auto simp: neq_Nil_conv)
  ultimately have x: "\<forall>y\<in>set xs. closer ?f x y" by simp
  have xin: "x \<in> set ?cs" by (metis xs list.set_intros(1) set_sort)
  have "x = 1"
  proof (rule ccontr)
    assume "x \<noteq> 1"
    then have "1 \<in> set xs" using one xs by (metis set_ConsD set_sort)
    then have "closer ?f x 1" using x by blast
    moreover have "1 \<le> x" using xin by (simp add: tile_candidates_iff)
    ultimately show False using f1 fn [OF xin] \<open>x \<noteq> 1\<close> by (auto simp: closer_def)
  qed
  then show ?thesis using xs by simp
qed

lemma no_candidates:
  fixes dimension :: int
  assumes "dimension mod 8 \<noteq> 0"
  shows "tile_candidates dimension lo = []"
proof (rule ccontr)
  assume "tile_candidates dimension lo \<noteq> []"
  then obtain n where "n \<in> set (tile_candidates dimension lo)"
    by (cases "tile_candidates dimension lo") auto
  then have n: "1 \<le> n" "dimension div n div 8 * 8 * n = dimension"
    by (auto simp: tile_candidates_iff)
  have "8 dvd dimension div n div 8 * 8 * n" by simp
  with n assms show False by (simp add: dvd_eq_mod_eq_0)
qed

text \<open>
  Claim C8, as amended.  For every dimension of at least 1 that is a multiple of 8, every
  list that \<open>possible_tile_sizes(dimension, dimension, 1, 1)\<close> returns is \<open>[1]\<close>: the
  no-split candidate is present.
\<close>

theorem possible_tile_sizes_no_split_positive:
  assumes "1 \<le> dimension" "8 dvd dimension"
    and "possible_tile_sizes dimension dimension 1 1 = Inr ns"
  shows "ns = [1] \<and> 1 \<in> set ns"
proof -
  from possible_tile_sizes_Inr [OF assms(3)]
  have "dimension < 2 ^ 60"
    and "ns = take 1 (sort_key (tile_distance dimension dimension)
           (tile_candidates dimension (min 1 (min dimension dimension))))"
    by auto
  then show ?thesis using no_split_first [OF assms(1,2)] by simp
qed

theorem possible_tile_sizes_no_split_positive_witness:
  "(1::int) \<le> 16 \<and> (8::int) dvd 16 \<and> possible_tile_sizes 16 16 1 1 = Inr [1] \<and>
   (1::int) \<in> set [1]"
proof -
  have r: "possible_tile_sizes 16 16 1 1 = Inr [1]"
    by (simp add: possible_tile_sizes_def arange_def argsort_def tile_distance_def wrap64_def
        upto_rec1)
  show ?thesis
    using r possible_tile_sizes_no_split_positive [of 16 "[1]"] by simp
qed

text \<open>
  Claim C8 as stated covers every multiple of 8, and 0 is one: there \<open>torch.arange(1, 1)\<close>
  is empty, and the list returned is empty.
\<close>

theorem possible_tile_sizes_no_split_zero:
  "(8::int) dvd 0 \<and> possible_tile_sizes 0 0 1 1 = Inr [] \<and> (1::int) \<notin> set []"
  by (simp add: possible_tile_sizes_def arange_def argsort_def)

text \<open>
  Claim C9, as amended.  For every dimension of at least 1 that is not a multiple of 8, and
  every \<open>tile_size\<close>, \<open>min_tile_size\<close> and \<open>tile_options\<close>, every list that
  \<open>possible_tile_sizes\<close> returns is empty: no \<open>n\<close> is a candidate, \<open>n = 1\<close> included.
\<close>

theorem possible_tile_sizes_not_multiple_of_8:
  assumes "1 \<le> dimension" "dimension mod 8 \<noteq> 0"
    and "possible_tile_sizes dimension tile_size min_tile_size tile_options = Inr ns"
  shows "ns = [] \<and> 1 \<notin> set ns"
proof -
  from possible_tile_sizes_Inr [OF assms(3)]
  have "ns = take (nat tile_options) (sort_key (tile_distance dimension tile_size)
           (tile_candidates dimension (min min_tile_size (min tile_size dimension))))"
    by auto
  then show ?thesis by (simp add: no_candidates [OF assms(2)])
qed

theorem possible_tile_sizes_not_multiple_of_8_witness:
  "(1::int) \<le> 100 \<and> (100::int) mod 8 \<noteq> 0 \<and> possible_tile_sizes 100 256 128 1 = Inr [] \<and>
   (1::int) \<notin> set []"
proof -
  have r: "possible_tile_sizes 100 256 128 1 = Inr []"
    by (simp add: possible_tile_sizes_def arange_def argsort_def tile_distance_def wrap64_def
        upto_rec1)
  show ?thesis
    using r possible_tile_sizes_not_multiple_of_8 [of 100 256 128 1 "[]"] by simp
qed

text \<open>
  Claim C9 as stated says that the function returns for every \<open>tile_size\<close> and
  \<open>min_tile_size\<close>.  A \<open>tile_size\<close> of \<open>2 ^ 64\<close> does not convert to a scalar: the subtraction
  of line 32 raises \<open>OverflowError\<close>, and no list is returned.
\<close>

theorem possible_tile_sizes_not_multiple_of_8_overflow:
  "(1::int) \<le> 100 \<and> (100::int) mod 8 \<noteq> 0 \<and> (1::int) \<le> 2 ^ 64 \<and> (1::int) \<le> 8 \<and>
   (1::int) \<le> 1 \<and> possible_tile_sizes 100 (2 ^ 64) 8 1 = Inl OverflowError"
  by (simp add: possible_tile_sizes_def arange_def)

section \<open>Properties of the list printer\<close>

text \<open>
  Claim C10.  \<open>parse_list\<close> is not total: on the empty list it takes the \<open>len(x) == 0\<close>
  branch, evaluates \<open>x[0]\<close> and raises an index error; on every non-empty list it returns
  \<open>str(x)\<close>.
\<close>

theorem parse_list_cases:
  "parse_list [] = Inl IndexError \<and> (x \<noteq> [] \<longrightarrow> parse_list x = Inr (str_list x))"
  by (simp add: parse_list_def getitem_def)

theorem parse_list_cases_witness:
  "parse_list [] = Inl IndexError \<and> [256, 128] \<noteq> ([] :: int list) \<and>
   parse_list [256, 128] = Inr ''[256, 128]''"
  using parse_list_cases [of "[256, 128]"]
  by (simp add: str_list_def str_int_def str_nat.simps)

section \<open>Properties of the rearrangements\<close>

lemma unravel_valid: "k < prod_list ns \<Longrightarrow> list_all2 (<) (unravel ns k) ns"
proof (induction ns arbitrary: k)
  case Nil
  then show ?case by simp
next
  case (Cons n ns)
  then have pos: "0 < prod_list ns" by (cases "prod_list ns = 0") auto
  have "k div prod_list ns < n"
    using Cons.prems pos by (simp add: less_mult_imp_div_less mult.commute)
  moreover have "k mod prod_list ns < prod_list ns" using pos by simp
  ultimately show ?case using Cons.IH by simp
qed

lemma ravel_bound: "list_all2 (<) is ns \<Longrightarrow> ravel ns is < prod_list ns"
proof (induction "is" ns rule: list_all2_induct)
  case Nil
  then show ?case by simp
next
  case (Cons i "is" n ns)
  have "i * prod_list ns + ravel ns is < i * prod_list ns + prod_list ns"
    using Cons.IH by simp
  also have "\<dots> = Suc i * prod_list ns" by simp
  also have "\<dots> \<le> n * prod_list ns"
    using Cons.hyps(1) by (intro mult_le_mono1) simp
  finally show ?case by simp
qed

lemma unravel_ravel: "list_all2 (<) is ns \<Longrightarrow> unravel ns (ravel ns is) = is"
proof (induction "is" ns rule: list_all2_induct)
  case Nil
  then show ?case by simp
next
  case (Cons i "is" n ns)
  have "ravel ns is < prod_list ns" using Cons.hyps(2) by (rule ravel_bound)
  then show ?case using Cons.IH by simp
qed

lemma ravel_unravel: "k < prod_list ns \<Longrightarrow> ravel ns (unravel ns k) = k"
proof (induction ns arbitrary: k)
  case Nil
  then show ?case by simp
next
  case (Cons n ns)
  then have pos: "0 < prod_list ns" by (cases "prod_list ns = 0") auto
  then have "ravel ns (unravel ns (k mod prod_list ns)) = k mod prod_list ns"
    by (intro Cons.IH) simp
  then show ?case by simp
qed

lemma transpose_axes_roundtrip:
  assumes len: "length xs = prod_list src"
    and p: "length p = length src" and q: "length q = length src"
    and dst: "dst = map (\<lambda>j. src ! j) q"
    and inv: "\<forall>j<length src. p ! j < length src \<and> q ! j < length src \<and> q ! (p ! j) = j"
  shows "transpose_axes dst src q (transpose_axes src dst p xs) = xs"
proof (rule nth_equalityI)
  show "length (transpose_axes dst src q (transpose_axes src dst p xs)) = length xs"
    by (simp add: transpose_axes_def len)
next
  fix k
  assume "k < length (transpose_axes dst src q (transpose_axes src dst p xs))"
  then have k: "k < prod_list src" by (simp add: transpose_axes_def)
  define sidx where "sidx = unravel src k"
  define didx where "didx = map (\<lambda>j. sidx ! j) q"
  have sv: "list_all2 (<) sidx src" unfolding sidx_def using k by (rule unravel_valid)
  then have len_sidx: "length sidx = length src" by (simp add: list_all2_lengthD)
  have dv: "list_all2 (<) didx dst"
    unfolding didx_def dst list_all2_conv_all_nth
    using sv inv q by (auto simp: list_all2_conv_all_nth)
  have perm_back: "map (\<lambda>j. didx ! j) p = sidx"
  proof (rule nth_equalityI)
    show "length (map (\<lambda>j. didx ! j) p) = length sidx" by (simp add: p len_sidx)
  next
    fix j
    assume "j < length (map (\<lambda>j. didx ! j) p)"
    then have j: "j < length src" by (simp add: p)
    then have "didx ! (p ! j) = sidx ! (q ! (p ! j))"
      using inv q by (simp add: didx_def)
    then show "map (\<lambda>j. didx ! j) p ! j = sidx ! j"
      using j inv p by simp
  qed
  have "transpose_axes dst src q (transpose_axes src dst p xs) ! k =
        transpose_axes src dst p xs ! ravel dst didx"
    using k by (simp add: transpose_axes_def sidx_def didx_def)
  also have "\<dots> = xs ! ravel src (map (\<lambda>j. unravel dst (ravel dst didx) ! j) p)"
    using ravel_bound [OF dv] by (simp add: transpose_axes_def)
  also have "\<dots> = xs ! ravel src sidx"
    by (simp add: unravel_ravel [OF dv] perm_back)
  also have "\<dots> = xs ! k"
    using k by (simp add: sidx_def ravel_unravel)
  finally show "transpose_axes dst src q (transpose_axes src dst p xs) ! k = xs ! k" .
qed

lemma length_transpose_axes: "length (transpose_axes src dst p xs) = prod_list dst"
  by (simp add: transpose_axes_def)

text \<open>
  Claim C5.  For every tensor of shape \<open>(b, c, H, W)\<close> and every tile grid \<open>(nh, nw)\<close> with
  \<open>H = nh * h\<close> and \<open>W = nw * w\<close>, the partition
  \<open>b c (nh h) (nw w) -> (b nh nw) c h w\<close> followed by the reassembly
  \<open>(b nh nw) c h w -> b c (nh h) (nw w)\<close> with the same \<open>(nh, nw)\<close> gives back the tensor:
  the same shape and the same elements.
\<close>

theorem vae_rearrange_round_trip:
  assumes wf: "wellformed x" and sh: "shape x = [b, c, nh * h, nw * w]"
    and pos: "0 < nh" "0 < nw"
  shows "\<exists>y. split_vae (int nh) (int nw) x = Inr y \<and>
             shape y = [b * nh * nw, c, h, w] \<and> wellformed y \<and>
             merge_vae (int nh) (int nw) y = Inr x"
proof -
  let ?src = "[b, c, nh, h, nw, w]"
  let ?dst = "[b, nh, nw, c, h, w]"
  define y where "y = \<lparr>shape = [b * nh * nw, c, h, w],
                       data = transpose_axes ?src ?dst [0, 3, 1, 4, 2, 5] (data x)\<rparr>"
  have split: "split_vae (int nh) (int nw) x = Inr y"
    using sh pos by (simp add: split_vae_def y_def)
  have len: "length (data x) = prod_list ?src"
    using wf sh by (simp add: wellformed_def ac_simps)
  have "transpose_axes ?dst ?src [0, 2, 4, 1, 3, 5]
          (transpose_axes ?src ?dst [0, 3, 1, 4, 2, 5] (data x)) = data x"
    by (rule transpose_axes_roundtrip [OF len]) (simp_all add: All_less_Suc eval_nat_numeral)
  then have merge: "merge_vae (int nh) (int nw) y = Inr x"
    using sh pos by (simp add: merge_vae_def y_def ac_simps)
  have "wellformed y"
    by (simp add: wellformed_def y_def length_transpose_axes ac_simps)
  with split merge show ?thesis by (auto simp: y_def)
qed

theorem vae_rearrange_round_trip_witness:
  "wellformed \<lparr>shape = [1, 1, 2, 2], data = [10, 11, 12, 13 :: nat]\<rparr> \<and>
   split_vae 1 2 \<lparr>shape = [1, 1, 2, 2], data = [10, 11, 12, 13 :: nat]\<rparr> =
     Inr \<lparr>shape = [2, 1, 2, 1], data = [10, 12, 11, 13]\<rparr> \<and>
   merge_vae 1 2 \<lparr>shape = [2, 1, 2, 1], data = [10, 12, 11, 13 :: nat]\<rparr> =
     Inr \<lparr>shape = [1, 1, 2, 2], data = [10, 11, 12, 13]\<rparr>"
proof -
  have w: "wellformed \<lparr>shape = [1, 1, 2, 2], data = [10, 11, 12, 13 :: nat]\<rparr>"
    by (simp add: wellformed_def)
  have s: "split_vae 1 2 \<lparr>shape = [1, 1, 2, 2], data = [10, 11, 12, 13 :: nat]\<rparr> =
     Inr \<lparr>shape = [2, 1, 2, 1], data = [10, 12, 11, 13]\<rparr>"
    by (simp add: split_vae_def transpose_axes_def upt_conv_Cons)
  show ?thesis
    using w s vae_rearrange_round_trip [of "\<lparr>shape = [1, 1, 2, 2], data = [10, 11, 12, 13 :: nat]\<rparr>" 1 1 1 2 2 1]
    by simp
qed

section \<open>Properties of the forward wrapper\<close>

lemmas eval_tiles = possible_tile_sizes_def arange_def argsort_def tile_distance_def wrap64_def
  upto_rec1

lemmas eval_scope = split_attention_def demo_layer_def demo_store_def demo_state_def
  hijack.simps restore.simps endswith_def Let_def

lemma tiles_32_16: "possible_tile_sizes 32 16 16 1 = Inr [2]"
  by (simp add: eval_tiles)

lemma tiles_16_16: "possible_tile_sizes 16 16 16 1 = Inr [1]"
  by (simp add: eval_tiles)

lemma split_demo_sequence:
  "split_unet 2 1 2 2 demo_sequence =
     Inr \<lparr>shape = [2, 4, 1], data = [0, 1, 2, 3, 4, 5, 6, 7]\<rparr>"
  by (simp add: split_unet_def demo_sequence_def transpose_axes_def upt_conv_Cons)

lemma shape_demo_sequence: "shape demo_sequence = [1, 8, 1]"
  by (simp add: demo_sequence_def)

lemmas eval_wrapper = wrapper_def make_ns_def randint_def getitem_def unet_branch_def
  track_size_def reset_nhs_def reset_nws_def demo_stage_def demo_log2_round_def guarded_def
  partitioned_def split_demo_sequence shape_demo_sequence tiles_32_16 tiles_16_16

lemma wrapper_no_candidates:
  "nhs s = [] \<Longrightarrow>
   wrapper stage log2_round tile_size min_tile_size swap_size depth f rnd x s = (Inl ValueError, s)"
  by (simp add: wrapper_def make_ns_def randint_def)

text \<open>
  What the handler of the guarded part is called on: the input itself when no partition
  was attempted or when the partitioning rearrangement raised.
\<close>

lemma guarded_without_split:
  "f x = Inl e \<Longrightarrow>
   guarded f False nh nw h w x s = (f x, s\<lparr>error_reported := True\<rparr>)"
  by (simp add: guarded_def partitioned_def)

lemma guarded_split_raises:
  "split_unet nh nw (h div nh) (w div nw) x = Inl e \<Longrightarrow>
   guarded f True nh nw h w x s = (f x, s\<lparr>error_reported := True\<rparr>)"
  by (simp add: guarded_def partitioned_def)

lemma guarded_forward_raises:
  "split_unet nh nw (h div nh) (w div nw) x = Inr x1 \<Longrightarrow> f x1 = Inl e \<Longrightarrow>
   guarded f True nh nw h w x s = (f x1, s\<lparr>error_reported := True\<rparr>)"
  by (simp add: guarded_def partitioned_def)

text \<open>
  Claim C4 says that after a failure of the partitioned execution the wrapper returns the
  result of the wrapped forward computation on the original input.  Here the input has
  8 positions for a stage of 4 by 2, the grid drawn is 2 by 1, and the wrapped computation
  accepts the original shape only.  The partition succeeds and rebinds \<open>x\<close>, the forward
  call raises, and the handler calls \<open>forward\<close> on the partitioned tensor again: the
  wrapper raises, although the wrapped computation returns on the original input.
\<close>

theorem wrapper_fallback_on_partitioned_input:
  "fixed_length_forward demo_sequence = Inr demo_sequence \<and>
   split_unet 2 1 2 2 demo_sequence = Inr \<lparr>shape = [2, 4, 1], data = [0, 1, 2, 3, 4, 5, 6, 7]\<rparr> \<and>
   wrapper demo_stage demo_log2_round 16 16 1 0 fixed_length_forward (0, 0) demo_sequence
      ((demo_state 32 16)\<lparr>nhs := [2], nws := [1]\<rparr>) =
     (Inl ForwardError,
      (demo_state 32 16)\<lparr>nhs := [2], nws := [1], max_h := 4, max_w := 2,
                          error_reported := True\<rparr>)"
proof -
  have w: "wrapper demo_stage demo_log2_round 16 16 1 0 fixed_length_forward (0, 0) demo_sequence
      ((demo_state 32 16)\<lparr>nhs := [2], nws := [1]\<rparr>) =
     (Inl ForwardError,
      (demo_state 32 16)\<lparr>nhs := [2], nws := [1], max_h := 4, max_w := 2,
                          error_reported := True\<rparr>)"
    by (simp add: eval_wrapper demo_state_def fixed_length_forward_def Let_def)
  show ?thesis
    using split_demo_sequence w by (simp add: fixed_length_forward_def demo_sequence_def)
qed

section \<open>Properties of the scoped activation\<close>






declare hijack.simps(2) [simp del] restore.simps(2) [simp del]










lemmas eval_store = read_forward_def self_attn_forward_def set_forward_def
  set_original_forward_def del_original_forward_def hijack_module_def restore_module_def


text \<open>
  Claim C7 says that with an empty list of candidates the scope activates and the forward
  calls return.  For a height and width of 100 the lists are empty; the scope patches
  submodule 0, and the call of its \<open>forward\<close> raises \<open>ValueError\<close> at the draw of the tile
  grid, which the region lets through.
\<close>

theorem split_attention_empty_candidates_raise:
  "possible_tile_sizes 100 128 128 1 = Inr [] \<and>
   patched (split_attention demo_stage demo_log2_round demo_impl demo_layer 128 128 1 0
              (demo_region \<lparr>shape = [1, 1, 2, 2], data = [0, 1, 2, 3 :: nat]\<rparr>)
              (demo_state 100 100) demo_store) = [0] \<and>
   outcome (split_attention demo_stage demo_log2_round demo_impl demo_layer 128 128 1 0
              (demo_region \<lparr>shape = [1, 1, 2, 2], data = [0, 1, 2, 3 :: nat]\<rparr>)
              (demo_state 100 100) demo_store) = Raised ValueError"
proof -
  have t: "possible_tile_sizes 100 128 128 1 = Inr []"
    by (simp add: eval_tiles)
  show ?thesis
    by (simp add: t eval_scope eval_store demo_region_def wrapper_no_candidates hijack.simps
        restore.simps)
qed






end
